theory Spec2Isabelle
  imports Complex_Main "HOL-Library.Sublist" "HOL-Library.AList"
begin

section \<open>Data model\<close>

text \<open>
  The dataclass \<^verbatim>\<open>DepositEvent\<close> of \<^verbatim>\<open>script.py\<close>. Python's unbounded
  integers are \<open>int\<close>, its strings are \<open>string\<close>.
\<close>

record DepositEvent =
  transaction_hash :: string
  source_chain_id :: int
  destination_chain_id :: int
  depositor :: string
  recipient :: string
  token_address :: string
  amount :: int
  nonce :: int

text \<open>
  The exception classes the handlers of the source tell apart.
  \<open>ClientError\<close> is \<^verbatim>\<open>aiohttp.ClientError\<close> with its subclasses (connection errors,
  \<^verbatim>\<open>ClientResponseError\<close>, \<^verbatim>\<open>ContentTypeError\<close>); \<open>TimeoutError\<close> is
  \<^verbatim>\<open>asyncio.TimeoutError\<close>, which derives from \<^verbatim>\<open>Exception\<close> and not from
  \<^verbatim>\<open>aiohttp.ClientError\<close>; \<open>CancelledError\<close> is \<^verbatim>\<open>asyncio.CancelledError\<close>,
  which derives from \<^verbatim>\<open>BaseException\<close> only, so that \<^verbatim>\<open>except Exception\<close>
  does not catch it; \<open>OverflowError\<close> is what a conversion of an integer to a float or
  a true division of integers raises when the result is too large for a float;
  \<open>OtherException\<close> is any other subclass of \<^verbatim>\<open>Exception\<close>
  (\<^verbatim>\<open>ValueError\<close>, \<^verbatim>\<open>TypeError\<close>, \<^verbatim>\<open>AttributeError\<close>, ...).
\<close>

datatype exn =
  ClientError | TimeoutError | CancelledError | KeyError int | OverflowError | OtherException

fun is_ClientError :: "exn \<Rightarrow> bool" where
  "is_ClientError ClientError = True"
| "is_ClientError _ = False"

fun is_Exception :: "exn \<Rightarrow> bool" where
  "is_Exception CancelledError = False"
| "is_Exception _ = True"

text \<open>
  A Python float: a finite value, an infinity or NaN. Which finite values a float can
  hold, and how an operation rounds, is the arithmetic's business: the operations are
  parameters of the model (see \<open>library\<close>), not computed here. A Python number handed
  to the report is a float or an integer (the sentinel \<^verbatim>\<open>-1\<close> is an integer).
\<close>

datatype pyfloat = Finite real | PosInf | NegInf | NaN

datatype pynum = PyFloat pyfloat | PyInt int

text \<open>\<^verbatim>\<open>bool(x)\<close> of a float: true unless it is zero; an infinity and NaN are true.\<close>

fun float_truthy :: "pyfloat \<Rightarrow> bool" where
  "float_truthy (Finite r) = (r \<noteq> 0)"
| "float_truthy _ = True"


text \<open>
  The value found under \<^verbatim>\<open>data.get('ethereum', {}).get('usd')\<close> in the decoded JSON
  body of the price endpoint: absent or null, an integer (of any size), a float, a string,
  a boolean, or a list or object (of which only emptiness matters).
\<close>

datatype price_field =
  UsdAbsent | UsdInt int | UsdFloat pyfloat | UsdString string | UsdBool bool | UsdCompound bool

text \<open>
  What \<^verbatim>\<open>session.get(Config.TOKEN_PRICE_API)\<close> does: it raises, or it gives a
  response with a status code whose body either fails to decode to the expected shape
  (\<open>Inl\<close>) or holds a price field. \<^verbatim>\<open>session.post\<close> raises or answers with a
  status code.
\<close>

datatype http_get = GetRaises exn | GetResponse nat "exn + price_field"

datatype http_post = PostRaises exn | PostStatus nat

text \<open>
  The library functions the source calls and does not define: \<^verbatim>\<open>Web3.is_address\<close>,
  \<^verbatim>\<open>Web3.to_checksum_address\<close>, \<^verbatim>\<open>Web3.to_hex\<close>,
  \<^verbatim>\<open>Web3.keccak(text=s).hex()\<close>, and Python's float arithmetic: \<^verbatim>\<open>float\<close> on
  a string (\<open>None\<close> where it raises \<^verbatim>\<open>ValueError\<close>), \<^verbatim>\<open>float\<close> on an
  integer (\<open>None\<close> where it raises \<^verbatim>\<open>OverflowError\<close>), the true division
  \<^verbatim>\<open>a / b\<close> of two integers (which raises \<^verbatim>\<open>OverflowError\<close> when the quotient
  is too large for a float) and the product \<^verbatim>\<open>x * y\<close> of two floats (which rounds,
  and gives an infinity or NaN where IEEE arithmetic does).
\<close>

record library =
  is_address :: "string \<Rightarrow> bool"
  to_checksum_address :: "string \<Rightarrow> string"
  to_hex :: "int \<Rightarrow> string"
  keccak_hex :: "string \<Rightarrow> string"
  float_of_str :: "string \<Rightarrow> pyfloat option"
  float_of_int :: "int \<Rightarrow> pyfloat option"
  int_truediv :: "int \<Rightarrow> int \<Rightarrow> exn + pyfloat"
  float_mul :: "pyfloat \<Rightarrow> pyfloat \<Rightarrow> pyfloat"

text \<open>
  What the network does during one call of \<^verbatim>\<open>process_event\<close>. The field
  \<open>session\<close> is \<^verbatim>\<open>self.session\<close>: \<open>None\<close> before \<^verbatim>\<open>start_session\<close>,
  \<open>Some is_closed\<close> afterwards.
\<close>

record network =
  session :: "bool option"
  get_result :: http_get
  post_result :: http_post

text \<open>The JSON payload posted to the monitoring endpoint.\<close>

record payload =
  tx_hash :: string
  source_chain :: int
  dest_chain :: int
  payload_amount :: int
  value_usd :: pynum
  status :: string

text \<open>
  Log lines, one constructor per \<^verbatim>\<open>logger\<close> call of the source, carrying the
  values the format string interpolates; those of \<^verbatim>\<open>listen_for_deposits\<close> apart.
\<close>

datatype level = DEBUG | INFO | WARNING | ERROR

datatype listener_msg =
    StartListening int
  | NewEventDetected int string
  | NoNewEvents int
  | PollingError int

datatype msg =
    ConnectorInitialized int string
  | FromListener listener_msg
  | ProcessingEvent int int int
  | InvalidEvent DepositEvent
  | EnrichedValue pyfloat
  | SuccessfullyProcessed int
  | NoSessionForPrice
  | FetchedPrice price_field
  | PriceClientError
  | PriceUnexpectedError
  | RequestingSignatures string
  | NoSessionForReport
  | ReportedOk int
  | ReportFailedStatus nat
  | ReportClientError
  | ConfigMissing int
  | NoValidChains

text \<open>
  The observable actions of the pipeline, in the order they happen: log lines, the
  entry into \<^verbatim>\<open>_request_validator_signatures\<close> (the dispatch call), the entry into
  \<^verbatim>\<open>_report_to_monitoring_service\<close> with its \<^verbatim>\<open>value_usd\<close> argument (the
  report call), and the two HTTP requests.
\<close>

datatype action =
    Log level msg
  | RequestSignatures DepositEvent
  | ReportCall DepositEvent pynum
  | HttpGet
  | HttpPost payload

text \<open>
  A method that logs, may raise and may return a value: its trace, and the exception
  (\<open>Inl\<close>) or the result (\<open>Inr\<close>).
\<close>

type_synonym 'a outcome = "action list \<times> (exn + 'a)"

section \<open>EventProcessor\<close>

text \<open>\<^verbatim>\<open>not self.session or self.session.closed\<close>\<close>

definition session_unavailable :: "network \<Rightarrow> bool" where
  "session_unavailable nw = (case session nw of None \<Rightarrow> True | Some is_closed \<Rightarrow> is_closed)"

text \<open>\<^verbatim>\<open>_is_valid_event\<close>\<close>

definition is_valid_event :: "library \<Rightarrow> DepositEvent \<Rightarrow> bool" where
  "is_valid_event lib event =
     (if amount event \<le> 0 then False
      else if \<not> is_address lib (depositor event) \<or> \<not> is_address lib (recipient event) then False
      else True)"

text \<open>Python's truth value of the price field, and \<^verbatim>\<open>float(price)\<close>.\<close>

fun truthy :: "price_field \<Rightarrow> bool" where
  "truthy UsdAbsent = False"
| "truthy (UsdInt i) = (i \<noteq> 0)"
| "truthy (UsdFloat x) = float_truthy x"
| "truthy (UsdString s) = (s \<noteq> [])"
| "truthy (UsdBool b) = b"
| "truthy (UsdCompound nonempty) = nonempty"

fun py_float :: "library \<Rightarrow> price_field \<Rightarrow> exn + pyfloat" where
  "py_float lib UsdAbsent = Inl OtherException"
| "py_float lib (UsdInt i) =
     (case float_of_int lib i of None \<Rightarrow> Inl OverflowError | Some x \<Rightarrow> Inr x)"
| "py_float lib (UsdFloat x) = Inr x"
| "py_float lib (UsdString s) =
     (case float_of_str lib s of None \<Rightarrow> Inl OtherException | Some x \<Rightarrow> Inr x)"
| "py_float lib (UsdBool b) = Inr (Finite (if b then 1 else 0))"
| "py_float lib (UsdCompound nonempty) = Inl OtherException"

text \<open>
  The \<^verbatim>\<open>try\<close> block of \<^verbatim>\<open>_get_token_price\<close>.
  \<^verbatim>\<open>raise_for_status\<close> raises \<^verbatim>\<open>ClientResponseError\<close> for a status of 400 or
  more. A falsy price leaves the \<^verbatim>\<open>with\<close> block and reaches the final
  \<^verbatim>\<open>return None\<close>.
\<close>

definition fetch_price :: "library \<Rightarrow> network \<Rightarrow> (pyfloat option) outcome" where
  "fetch_price lib nw =
     (if session_unavailable nw then ([Log WARNING NoSessionForPrice], Inr None)
      else case get_result nw of
             GetRaises x \<Rightarrow> ([HttpGet], Inl x)
           | GetResponse code body \<Rightarrow>
               if 400 \<le> code then ([HttpGet], Inl ClientError)
               else (case body of
                       Inl x \<Rightarrow> ([HttpGet], Inl x)
                     | Inr price \<Rightarrow>
                         if truthy price then
                           (case py_float lib price of
                              Inl x \<Rightarrow> ([HttpGet, Log DEBUG (FetchedPrice price)], Inl x)
                            | Inr r \<Rightarrow> ([HttpGet, Log DEBUG (FetchedPrice price)], Inr (Some r)))
                         else ([HttpGet], Inr None)))"

text \<open>
  \<^verbatim>\<open>_get_token_price\<close>: the \<^verbatim>\<open>try\<close> block under its two handlers,
  \<^verbatim>\<open>except aiohttp.ClientError\<close> and \<^verbatim>\<open>except Exception\<close>; both log and fall
  through to \<^verbatim>\<open>return None\<close>.
\<close>

definition get_token_price :: "library \<Rightarrow> network \<Rightarrow> (pyfloat option) outcome" where
  "get_token_price lib nw =
     (case fetch_price lib nw of
        (t, Inr r) \<Rightarrow> (t, Inr r)
      | (t, Inl x) \<Rightarrow>
          if is_ClientError x then (t @ [Log ERROR PriceClientError], Inr None)
          else if is_Exception x then (t @ [Log ERROR PriceUnexpectedError], Inr None)
          else (t, Inl x))"

text \<open>Python's \<^verbatim>\<open>str\<close> of an integer, as an f-string interpolates it.\<close>

definition digit_char :: "nat \<Rightarrow> char" where
  "digit_char d = ''0123456789'' ! d"

fun str_nat :: "nat \<Rightarrow> string" where
  "str_nat n = (if n < 10 then [digit_char n] else str_nat (n div 10) @ [digit_char (n mod 10)])"

declare str_nat.simps [simp del]

definition str_int :: "int \<Rightarrow> string" where
  "str_int i = (if i < 0 then CHR ''-'' # str_nat (nat (- i)) else str_nat (nat i))"

text \<open>
  \<^verbatim>\<open>_request_validator_signatures\<close>: the message to sign, its hash (the dispatch
  payload identifier), and the method itself, which only logs the hash.
\<close>

definition message_to_sign :: "DepositEvent \<Rightarrow> string" where
  "message_to_sign event =
     recipient event @ ''-'' @ token_address event @ ''-'' @ str_int (amount event) @ ''-''
       @ str_int (nonce event) @ ''-'' @ str_int (destination_chain_id event)"

definition message_hash :: "library \<Rightarrow> DepositEvent \<Rightarrow> string" where
  "message_hash lib event = keccak_hex lib (message_to_sign event)"

definition request_validator_signatures :: "library \<Rightarrow> DepositEvent \<Rightarrow> action list" where
  "request_validator_signatures lib event =
     [RequestSignatures event, Log INFO (RequestingSignatures (message_hash lib event))]"

text \<open>
  \<^verbatim>\<open>_report_to_monitoring_service\<close>. The only handler is
  \<^verbatim>\<open>except aiohttp.ClientError\<close>; any other exception of the request leaves the
  method.
\<close>

definition report_payload :: "DepositEvent \<Rightarrow> pynum \<Rightarrow> payload" where
  "report_payload event v =
     \<lparr>tx_hash = transaction_hash event, source_chain = source_chain_id event,
      dest_chain = destination_chain_id event, payload_amount = amount event,
      value_usd = v, status = ''PROCESSED''\<rparr>"

definition report_to_monitoring_service ::
  "network \<Rightarrow> DepositEvent \<Rightarrow> pynum \<Rightarrow> unit outcome" where
  "report_to_monitoring_service nw event v =
     (if session_unavailable nw then
        ([ReportCall event v, Log WARNING NoSessionForReport], Inr ())
      else case post_result nw of
             PostRaises x \<Rightarrow>
               if is_ClientError x then
                 ([ReportCall event v, HttpPost (report_payload event v),
                   Log ERROR ReportClientError], Inr ())
               else ([ReportCall event v, HttpPost (report_payload event v)], Inl x)
           | PostStatus code \<Rightarrow>
               if code = 200 then
                 ([ReportCall event v, HttpPost (report_payload event v),
                   Log INFO (ReportedOk (nonce event))], Inr ())
               else
                 ([ReportCall event v, HttpPost (report_payload event v),
                   Log WARNING (ReportFailedStatus code)], Inr ()))"

text \<open>
  \<^verbatim>\<open>process_event\<close>. The price is tested for truth twice
  (\<^verbatim>\<open>if token_price_usd:\<close> and \<^verbatim>\<open>value_usd if token_price_usd else -1\<close>), and a
  float is true when it is not zero.
\<close>

definition price_truthy :: "pyfloat option \<Rightarrow> bool" where
  "price_truthy token_price_usd =
     (case token_price_usd of None \<Rightarrow> False | Some p \<Rightarrow> float_truthy p)"

text \<open>
  Step 2 of \<^verbatim>\<open>process_event\<close>, the statement
  \<^verbatim>\<open>if token_price_usd: value_usd = (event.amount / 10**6) * token_price_usd\<close>:
  the binding of \<^verbatim>\<open>value_usd\<close> it leaves (\<open>None\<close> when the variable stays
  unbound), or the exception of the division, which nothing in \<^verbatim>\<open>process_event\<close>
  catches.
\<close>

definition enrich :: "library \<Rightarrow> DepositEvent \<Rightarrow> pyfloat option \<Rightarrow> exn + pyfloat option" where
  "enrich lib event token_price_usd =
     (if price_truthy token_price_usd then
        (case int_truediv lib (amount event) (10 ^ 6) of
           Inl x \<Rightarrow> Inl x
         | Inr q \<Rightarrow> Inr (Some (float_mul lib q (the token_price_usd))))
      else Inr None)"

definition process_event :: "library \<Rightarrow> network \<Rightarrow> DepositEvent \<Rightarrow> unit outcome" where
  "process_event lib nw event =
     (let t0 = [Log INFO (ProcessingEvent (nonce event) (source_chain_id event)
                            (destination_chain_id event))]
      in if \<not> is_valid_event lib event then (t0 @ [Log WARNING (InvalidEvent event)], Inr ())
         else case get_token_price lib nw of
                (t1, Inl x) \<Rightarrow> (t0 @ t1, Inl x)
              | (t1, Inr token_price_usd) \<Rightarrow>
                  (case enrich lib event token_price_usd of
                     Inl x \<Rightarrow> (t0 @ t1, Inl x)
                   | Inr bound_value_usd \<Rightarrow>
                       let t2 = (case bound_value_usd of
                                   Some v \<Rightarrow> [Log INFO (EnrichedValue v)]
                                 | None \<Rightarrow> []);
                           t3 = request_validator_signatures lib event
                       in case report_to_monitoring_service nw event
                                 (if price_truthy token_price_usd then PyFloat (the bound_value_usd)
                                  else PyInt (- 1)) of
                            (t4, Inl x) \<Rightarrow> (t0 @ t1 @ t2 @ t3 @ t4, Inl x)
                          | (t4, Inr u) \<Rightarrow>
                              (t0 @ t1 @ t2 @ t3 @ t4
                                 @ [Log INFO (SuccessfullyProcessed (nonce event))], Inr ())))"

section \<open>BlockchainConnector\<close>

record BlockchainConnector =
  chain_id :: int
  rpc_url :: string
  contract_address :: string

text \<open>
  The random draws of one call of \<^verbatim>\<open>_generate_mock_event\<close>:
  \<^verbatim>\<open>random.randint(1, 10**18)\<close>, the two results of
  \<^verbatim>\<open>''.join(random.choices('0123456789abcdef', k=40))\<close>, and
  \<^verbatim>\<open>random.randint(100, 10000)\<close>.
\<close>

record draws =
  tx_rand :: int
  depositor_hex :: string
  recipient_hex :: string
  amount_rand :: int

text \<open>What the random module guarantees about the draws.\<close>

definition hex_digits :: "string \<Rightarrow> bool" where
  "hex_digits s = (length s = 40 \<and> list_all (\<lambda>c. c \<in> set ''0123456789abcdef'') s)"

definition draws_in_range :: "draws \<Rightarrow> bool" where
  "draws_in_range d =
     (1 \<le> tx_rand d \<and> tx_rand d \<le> 10 ^ 18 \<and> hex_digits (depositor_hex d)
      \<and> hex_digits (recipient_hex d) \<and> 100 \<le> amount_rand d \<and> amount_rand d \<le> 10000)"

text \<open>\<^verbatim>\<open>_generate_mock_event\<close>\<close>

definition generate_mock_event ::
  "library \<Rightarrow> BlockchainConnector \<Rightarrow> draws \<Rightarrow> int \<Rightarrow> DepositEvent" where
  "generate_mock_event lib self d n =
     \<lparr>transaction_hash = to_hex lib (tx_rand d),
      source_chain_id = chain_id self,
      destination_chain_id = (if chain_id self = 1 then 137 else 1),
      depositor = to_checksum_address lib (''0x'' @ depositor_hex d),
      recipient = to_checksum_address lib (''0x'' @ recipient_hex d),
      token_address = ''0xA0b86991c6218b36c1d19D4a2e9Eb0cE3606eB48'',
      amount = amount_rand d * 10 ^ 6,
      nonce = n\<rparr>"

text \<open>
  One iteration of the loop of \<^verbatim>\<open>listen_for_deposits\<close>: \<open>Poll u d\<close> when
  \<^verbatim>\<open>random.random()\<close> gave \<open>u\<close> and the event, if one is generated, uses the
  draws \<open>d\<close>; \<open>PollRaises incremented\<close> when a statement of the \<^verbatim>\<open>try\<close>
  block raised an \<^verbatim>\<open>Exception\<close>, before or after
  \<^verbatim>\<open>nonce_counter += 1\<close>. The draw \<open>u\<close> is a float, taken as the real it
  holds: no float lies between the float \<^verbatim>\<open>0.6\<close> and the real \<open>6/10\<close>, so the
  two comparisons agree. The generator is run on a finite prefix of its iterations; what
  it does is a sequence of log lines and yielded events.
\<close>

datatype poll = Poll real draws | PollRaises bool

datatype listener_step = Logged level listener_msg | Emit DepositEvent

fun listen_from ::
  "library \<Rightarrow> BlockchainConnector \<Rightarrow> int \<Rightarrow> poll list \<Rightarrow> listener_step list" where
  "listen_from lib self nonce_counter [] = []"
| "listen_from lib self nonce_counter (Poll u d # polls) =
     (if u > 6 / 10 then
        Logged INFO (NewEventDetected (chain_id self)
                       (transaction_hash (generate_mock_event lib self d (nonce_counter + 1))))
          # Emit (generate_mock_event lib self d (nonce_counter + 1))
          # listen_from lib self (nonce_counter + 1) polls
      else Logged DEBUG (NoNewEvents (chain_id self)) # listen_from lib self nonce_counter polls)"
| "listen_from lib self nonce_counter (PollRaises incremented # polls) =
     Logged ERROR (PollingError (chain_id self))
       # listen_from lib self (if incremented then nonce_counter + 1 else nonce_counter) polls"

definition listen_for_deposits ::
  "library \<Rightarrow> BlockchainConnector \<Rightarrow> poll list \<Rightarrow> listener_step list" where
  "listen_for_deposits lib self polls =
     Logged INFO (StartListening (chain_id self)) # listen_from lib self 0 polls"

fun emitted :: "listener_step list \<Rightarrow> DepositEvent list" where
  "emitted [] = []"
| "emitted (Logged l m # steps) = emitted steps"
| "emitted (Emit event # steps) = event # emitted steps"

text \<open>
  The draws of a run of polls are in range when the draws of each poll are. What the
  listener relies on from the library: the checksum form of \<^verbatim>\<open>0x\<close> followed by
  forty hexadecimal digits is an address for \<^verbatim>\<open>Web3.is_address\<close>.
\<close>

fun poll_in_range :: "poll \<Rightarrow> bool" where
  "poll_in_range (Poll u d) = draws_in_range d"
| "poll_in_range (PollRaises incremented) = True"

definition checksum_is_address :: "library \<Rightarrow> bool" where
  "checksum_is_address lib =
     (\<forall>s. hex_digits s \<longrightarrow> is_address lib (to_checksum_address lib (''0x'' @ s)))"

section \<open>CrossChainBridgeListener\<close>

text \<open>The class attributes of \<^verbatim>\<open>Config\<close> that the orchestrator reads.\<close>

definition RPC_ENDPOINTS :: "(int \<times> string) list" where
  "RPC_ENDPOINTS =
     [(1, ''https://mainnet.infura.io/v3/YOUR_INFURA_KEY''), (137, ''https://polygon-rpc.com/'')]"

definition BRIDGE_CONTRACT_ADDRESSES :: "(int \<times> string) list" where
  "BRIDGE_CONTRACT_ADDRESSES =
     [(1, ''0xSourceBridgeContractAddress...''), (137, ''0xDestBridgeContractAddress...'')]"

text \<open>
  \<^verbatim>\<open>_initialize_connectors\<close>, on the remaining chain ids and the dictionary
  \<^verbatim>\<open>self.connectors\<close> so far (an association list in insertion order). A subscript
  on a dictionary raises \<^verbatim>\<open>KeyError\<close> for a missing key; both subscripts are
  evaluated before the constructor logs.
\<close>

fun initialize_connectors ::
  "int list \<Rightarrow> (int \<times> BlockchainConnector) list \<Rightarrow> ((int \<times> BlockchainConnector) list) outcome"
  where
  "initialize_connectors [] connectors = ([], Inr connectors)"
| "initialize_connectors (c # chain_ids) connectors =
     (case map_of RPC_ENDPOINTS c of
        None \<Rightarrow>
          (case initialize_connectors chain_ids connectors of
             (t, r) \<Rightarrow> (Log ERROR (ConfigMissing c) # t, r))
      | Some url \<Rightarrow>
          (case map_of BRIDGE_CONTRACT_ADDRESSES c of
             None \<Rightarrow> ([], Inl (KeyError c))
           | Some address \<Rightarrow>
               (case initialize_connectors chain_ids
                       (AList.update c
                          \<lparr>chain_id = c, rpc_url = url, contract_address = address\<rparr> connectors) of
                  (t, r) \<Rightarrow> (Log INFO (ConnectorInitialized c url) # t, r))))"

text \<open>
  The loop of \<^verbatim>\<open>_listener_task\<close>,
  \<^verbatim>\<open>async for event in ...: await self.event_processor.process_event(event)\<close>,
  over what the generator does: the generator runs up to its next \<^verbatim>\<open>yield\<close>, the
  body processes the event to its end, and the generator resumes. \<open>net i\<close> is what the
  network does while the \<open>i\<close>-th event is processed. An exception of the body ends the
  loop.
\<close>

fun listener_loop ::
  "library \<Rightarrow> (nat \<Rightarrow> network) \<Rightarrow> nat \<Rightarrow> listener_step list \<Rightarrow> unit outcome" where
  "listener_loop lib net i [] = ([], Inr ())"
| "listener_loop lib net i (Logged l m # steps) =
     (case listener_loop lib net i steps of (t, r) \<Rightarrow> (Log l (FromListener m) # t, r))"
| "listener_loop lib net i (Emit event # steps) =
     (case process_event lib (net i) event of
        (t, Inl x) \<Rightarrow> (t, Inl x)
      | (t, Inr u) \<Rightarrow>
          (case listener_loop lib net (Suc i) steps of (t', r) \<Rightarrow> (t @ t', r)))"

definition listener_task ::
  "library \<Rightarrow> (int \<times> BlockchainConnector) list \<Rightarrow> (nat \<Rightarrow> network) \<Rightarrow> int \<Rightarrow> poll list
     \<Rightarrow> unit outcome" where
  "listener_task lib connectors net c polls =
     (case map_of connectors c of
        None \<Rightarrow> ([], Inl (KeyError c))
      | Some connector \<Rightarrow> listener_loop lib net 0 (listen_for_deposits lib connector polls))"

section \<open>Reading a trace\<close>

text \<open>
  The nonces of the events whose processing started, in order (the first log line of
  \<^verbatim>\<open>process_event\<close>); the dispatch and report calls of a trace.
\<close>

fun started :: "action \<Rightarrow> int list" where
  "started (Log INFO (ProcessingEvent n s d)) = [n]"
| "started _ = []"

definition processing_order :: "action list \<Rightarrow> int list" where
  "processing_order t = concat (map started t)"

fun is_dispatch :: "action \<Rightarrow> bool" where
  "is_dispatch (RequestSignatures event) = True"
| "is_dispatch _ = False"

fun is_report :: "action \<Rightarrow> bool" where
  "is_report (ReportCall event v) = True"
| "is_report (HttpPost p) = True"
| "is_report _ = False"



text \<open>
  The stages an event passes, read off a trace with the reported value left out:
  the dispatch call and the report call.
\<close>

datatype stage = Dispatched DepositEvent | Reported DepositEvent

fun stage_of :: "action \<Rightarrow> stage list" where
  "stage_of (RequestSignatures event) = [Dispatched event]"
| "stage_of (ReportCall event v) = [Reported event]"
| "stage_of _ = []"

definition stages :: "action list \<Rightarrow> stage list" where
  "stages t = concat (map stage_of t)"

text \<open>
  What a run of \<^verbatim>\<open>_initialize_connectors\<close> over \<open>chain_ids\<close> leaves, from the
  dictionary \<open>connectors\<close> to the dictionary \<open>cs\<close> with the trace \<open>t\<close>: the entries
  of the chains other than 1 and 137 are untouched, chains 1 and 137 have a connector
  when they were asked for or had one, and each other chain asked for has its error
  line. It is the invariant of the loop.
\<close>

definition completes :: "int list \<Rightarrow> (int \<times> BlockchainConnector) list \<Rightarrow> action list \<Rightarrow> (int \<times> BlockchainConnector) list \<Rightarrow> bool" where
  "completes chain_ids connectors t cs \<longleftrightarrow>
     (\<forall>c. c \<noteq> 1 \<and> c \<noteq> 137 \<longrightarrow> map_of cs c = map_of connectors c) \<and>
     (\<forall>c. (c = 1 \<or> c = 137) \<and> (c \<in> set chain_ids \<or> map_of connectors c \<noteq> None)
          \<longrightarrow> map_of cs c \<noteq> None) \<and>
     (\<forall>c\<in>set chain_ids. c \<noteq> 1 \<and> c \<noteq> 137 \<longrightarrow> Log ERROR (ConfigMissing c) \<in> set t)"

section \<open>Concrete inputs\<close>

text \<open>
  A stand-in for the library, to run the model on concrete inputs. It accepts an address
  when it is \<^verbatim>\<open>0x\<close> and forty lower-case hexadecimal digits, which
  \<^verbatim>\<open>Web3.is_address\<close> accepts too, and leaves an address as it is where the
  checksum would put some letters in upper case; the hash is left symbolic (the message
  itself), and \<^verbatim>\<open>float\<close> reads the string \<^verbatim>\<open>"0"\<close> only. Its float arithmetic
  is exact where Python rounds, and overflows where a double does, from
  \<open>2^1024 - 2^970\<close> on: it agrees with Python wherever the exact result is a double, as
  for the small whole numbers used below.
\<close>

fun hex_nat :: "nat \<Rightarrow> string" where
  "hex_nat n =
     (if n < 16 then [''0123456789abcdef'' ! n]
      else hex_nat (n div 16) @ [''0123456789abcdef'' ! (n mod 16)])"

declare hex_nat.simps [simp del]

definition sample_is_address :: "string \<Rightarrow> bool" where
  "sample_is_address s =
     (length s = 42 \<and> take 2 s = ''0x''
      \<and> list_all (\<lambda>c. c \<in> set ''0123456789abcdef'') (drop 2 s))"

definition float_overflows :: "real \<Rightarrow> bool" where
  "float_overflows r = (2 ^ 1024 - 2 ^ 970 \<le> \<bar>r\<bar>)"

definition sample_float_of_int :: "int \<Rightarrow> pyfloat option" where
  "sample_float_of_int i = (if float_overflows (of_int i) then None else Some (Finite (of_int i)))"

definition sample_int_truediv :: "int \<Rightarrow> int \<Rightarrow> exn + pyfloat" where
  "sample_int_truediv a b =
     (if b = 0 then Inl OtherException
      else if float_overflows (of_int a / of_int b) then Inl OverflowError
      else Inr (Finite (of_int a / of_int b)))"

fun float_sign :: "pyfloat \<Rightarrow> int" where
  "float_sign (Finite r) = (if r = 0 then 0 else if 0 < r then 1 else - 1)"
| "float_sign PosInf = 1"
| "float_sign NegInf = - 1"
| "float_sign NaN = 0"

fun sample_float_mul :: "pyfloat \<Rightarrow> pyfloat \<Rightarrow> pyfloat" where
  "sample_float_mul (Finite x) (Finite y) =
     (if float_overflows (x * y) then (if 0 < x * y then PosInf else NegInf)
      else Finite (x * y))"
| "sample_float_mul NaN y = NaN"
| "sample_float_mul x NaN = NaN"
| "sample_float_mul x y =
     (if float_sign x * float_sign y = 0 then NaN
      else if 0 < float_sign x * float_sign y then PosInf else NegInf)"

definition sample_library :: library where
  "sample_library =
     \<lparr>is_address = sample_is_address,
      to_checksum_address = (\<lambda>s. s),
      to_hex = (\<lambda>i. ''0x'' @ hex_nat (nat i)),
      keccak_hex = (\<lambda>s. s),
      float_of_str = (\<lambda>s. if s = ''0'' then Some (Finite 0) else None),
      float_of_int = sample_float_of_int,
      int_truediv = sample_int_truediv,
      float_mul = sample_float_mul\<rparr>"

text \<open>
  An open session, a price of 2000 and a monitoring service that answers 200; a deposit of
  one USDC from chain 1 to chain 137.
\<close>

definition sample_network :: network where
  "sample_network =
     \<lparr>session = Some False, get_result = GetResponse 200 (Inr (UsdFloat (Finite 2000))),
      post_result = PostStatus 200\<rparr>"

definition sample_event :: DepositEvent where
  "sample_event =
     \<lparr>transaction_hash = ''0x1b'',
      source_chain_id = 1,
      destination_chain_id = 137,
      depositor = ''0x1111111111111111111111111111111111111111'',
      recipient = ''0x2222222222222222222222222222222222222222'',
      token_address = ''0xA0b86991c6218b36c1d19D4a2e9Eb0cE3606eB48'',
      amount = 1000000,
      nonce = 1\<rparr>"

definition sample_draws :: draws where
  "sample_draws =
     \<lparr>tx_rand = 27,
      depositor_hex = ''1111111111111111111111111111111111111111'',
      recipient_hex = ''2222222222222222222222222222222222222222'',
      amount_rand = 100\<rparr>"

definition sample_connector :: BlockchainConnector where
  "sample_connector =
     \<lparr>chain_id = 1, rpc_url = ''https://mainnet.infura.io/v3/YOUR_INFURA_KEY'',
      contract_address = ''0xSourceBridgeContractAddress...''\<rparr>"

section \<open>What one call of process_event does\<close>

text \<open>
  The validator in closed form; the trace of a rejected event; what the price fetch and
  the report contribute to a trace; what the enrichment step leaves; and the trace of an
  accepted event, by whether the division of the enrichment step raises.
\<close>

lemmas processor_defs =
  process_event_def enrich_def get_token_price_def fetch_price_def
  report_to_monitoring_service_def request_validator_signatures_def session_unavailable_def
  price_truthy_def is_valid_event_def report_payload_def

text \<open>The stand-in arithmetic does not overflow on small values.\<close>

lemma float_overflows_small: "\<bar>r\<bar> \<le> 2 ^ 40 \<Longrightarrow> float_overflows r \<longleftrightarrow> False"
proof -
  assume r: "\<bar>r\<bar> \<le> 2 ^ 40"
  have a: "(2::real) ^ 40 < 2 ^ 970" by (rule power_strict_increasing) simp_all
  have "(2::real) ^ 970 * 2 = 2 ^ 971" by simp
  also have "\<dots> \<le> 2 ^ 1024" by (rule power_increasing) simp_all
  finally have b: "(2::real) ^ 970 * 2 \<le> 2 ^ 1024" .
  from r a b have "\<bar>r\<bar> < 2 ^ 1024 - 2 ^ 970" by linarith
  then show ?thesis by (simp add: float_overflows_def)
qed

lemmas sample_defs =
  sample_library_def sample_network_def sample_event_def sample_is_address_def
  sample_int_truediv_def sample_float_of_int_def float_overflows_small

lemma is_valid_event_iff:
  "is_valid_event lib event \<longleftrightarrow>
     0 < amount event \<and> is_address lib (depositor event) \<and> is_address lib (recipient event)"
  by (auto simp: is_valid_event_def)

lemma process_event_invalid:
  "\<not> is_valid_event lib event \<Longrightarrow>
   process_event lib nw event =
     ([Log INFO (ProcessingEvent (nonce event) (source_chain_id event) (destination_chain_id event)),
       Log WARNING (InvalidEvent event)], Inr ())"
  by (simp add: process_event_def)






















lemma get_token_price_unavailable:
  "session_unavailable nw \<Longrightarrow> snd (get_token_price lib nw) = Inr None"
  "\<not> session_unavailable nw \<Longrightarrow> get_result nw = GetRaises x \<Longrightarrow> is_Exception x \<Longrightarrow>
     snd (get_token_price lib nw) = Inr None"
  "\<not> session_unavailable nw \<Longrightarrow> get_result nw = GetResponse code body \<Longrightarrow> 400 \<le> code \<Longrightarrow>
     snd (get_token_price lib nw) = Inr None"
  "\<not> session_unavailable nw \<Longrightarrow> get_result nw = GetResponse code (Inl x) \<Longrightarrow> is_Exception x \<Longrightarrow>
     snd (get_token_price lib nw) = Inr None"
  "\<not> session_unavailable nw \<Longrightarrow> get_result nw = GetResponse code (Inr price) \<Longrightarrow> \<not> truthy price \<Longrightarrow>
     snd (get_token_price lib nw) = Inr None"
  "\<not> session_unavailable nw \<Longrightarrow> get_result nw = GetResponse code (Inr price) \<Longrightarrow>
     py_float lib price = Inl x \<Longrightarrow> is_Exception x \<Longrightarrow> snd (get_token_price lib nw) = Inr None"
  by (auto simp: get_token_price_def fetch_price_def split: sum.splits)

section \<open>The validator\<close>

text \<open>
  C1 (as amended). The validator does not compare the chain ids. An event whose
  \<^verbatim>\<open>source_chain_id\<close> equals its \<^verbatim>\<open>destination_chain_id\<close> is rejected exactly
  when its amount is not positive or its depositor or recipient is not an address; a
  rejected event is dropped by \<^verbatim>\<open>process_event\<close> after two log lines, with no
  dispatch call and no report.
\<close>

theorem same_chain_event_judged_on_amount_and_addresses:
  assumes "source_chain_id event = destination_chain_id event"
  shows "(is_valid_event lib event \<longleftrightarrow>
            0 < amount event \<and> is_address lib (depositor event) \<and> is_address lib (recipient event)) \<and>
         (\<not> is_valid_event lib event \<longrightarrow>
            process_event lib nw event =
              ([Log INFO (ProcessingEvent (nonce event) (source_chain_id event)
                            (destination_chain_id event)),
                Log WARNING (InvalidEvent event)], Inr ()) \<and>
            \<not> list_ex is_dispatch (fst (process_event lib nw event)) \<and>
            \<not> list_ex is_report (fst (process_event lib nw event)))"
  by (simp add: is_valid_event_iff process_event_invalid)

theorem same_chain_event_judged_on_amount_and_addresses_witness:
  "source_chain_id (sample_event\<lparr>destination_chain_id := 1, recipient := ''0x12''\<rparr>)
     = destination_chain_id (sample_event\<lparr>destination_chain_id := 1, recipient := ''0x12''\<rparr>) \<and>
   \<not> is_valid_event sample_library (sample_event\<lparr>destination_chain_id := 1, recipient := ''0x12''\<rparr>) \<and>
   \<not> list_ex is_dispatch (fst (process_event sample_library sample_network
        (sample_event\<lparr>destination_chain_id := 1, recipient := ''0x12''\<rparr>))) \<and>
   \<not> list_ex is_report (fst (process_event sample_library sample_network
        (sample_event\<lparr>destination_chain_id := 1, recipient := ''0x12''\<rparr>)))"
  using same_chain_event_judged_on_amount_and_addresses
          [of "sample_event\<lparr>destination_chain_id := 1, recipient := ''0x12''\<rparr>" sample_library sample_network]
  by (simp add: sample_defs)

text \<open>
  C1 as the specification states it fails: a deposit from chain 1 to chain 1 with a
  positive amount and two well-formed addresses passes the validator and is dispatched
  and reported.
\<close>

theorem same_chain_event_accepted_counterexample:
  "source_chain_id (sample_event\<lparr>destination_chain_id := 1\<rparr>)
     = destination_chain_id (sample_event\<lparr>destination_chain_id := 1\<rparr>) \<and>
   is_valid_event sample_library (sample_event\<lparr>destination_chain_id := 1\<rparr>) \<and>
   stages (fst (process_event sample_library sample_network (sample_event\<lparr>destination_chain_id := 1\<rparr>)))
     = [Dispatched (sample_event\<lparr>destination_chain_id := 1\<rparr>),
        Reported (sample_event\<lparr>destination_chain_id := 1\<rparr>)]"
  by (simp add: processor_defs sample_defs stages_def)

text \<open>
  C7. An event whose amount is zero or negative is rejected: \<^verbatim>\<open>process_event\<close>
  logs the event as invalid and returns, and its trace holds no dispatch call, no report
  call and no post to the monitoring service.
\<close>

theorem nonpositive_amount_dropped:
  assumes "amount event \<le> 0"
  shows "\<not> is_valid_event lib event \<and>
     process_event lib nw event =
       ([Log INFO (ProcessingEvent (nonce event) (source_chain_id event) (destination_chain_id event)),
         Log WARNING (InvalidEvent event)], Inr ()) \<and>
     \<not> list_ex is_dispatch (fst (process_event lib nw event)) \<and>
     \<not> list_ex is_report (fst (process_event lib nw event))"
proof -
  from assms have inv: "\<not> is_valid_event lib event" by (simp add: is_valid_event_def)
  then show ?thesis by (simp add: process_event_invalid)
qed

theorem nonpositive_amount_dropped_witness:
  "amount (sample_event\<lparr>amount := 0\<rparr>) \<le> 0 \<and>
   \<not> is_valid_event sample_library (sample_event\<lparr>amount := 0\<rparr>) \<and>
   process_event sample_library sample_network (sample_event\<lparr>amount := 0\<rparr>) =
     ([Log INFO (ProcessingEvent 1 1 137), Log WARNING (InvalidEvent (sample_event\<lparr>amount := 0\<rparr>))],
      Inr ())"
  using nonpositive_amount_dropped [of "sample_event\<lparr>amount := 0\<rparr>" sample_library sample_network]
  by (simp add: sample_event_def)

section \<open>The signing request\<close>

text \<open>
  C5. The dispatch payload identifier is a function of the recipient, the token address,
  the amount, the nonce and the destination chain id only: two events that agree on these
  five fields get the same identifier, the identifier logged by
  \<^verbatim>\<open>_request_validator_signatures\<close> is that one, and changing the transaction
  hash, the depositor or the source chain id of an event leaves it unchanged.
\<close>

theorem dispatch_identifier_determined_by_tuple:
  assumes "recipient e1 = recipient e2" and "token_address e1 = token_address e2"
    and "amount e1 = amount e2" and "nonce e1 = nonce e2"
    and "destination_chain_id e1 = destination_chain_id e2"
  shows "message_hash lib e1 = message_hash lib e2 \<and>
         Log INFO (RequestingSignatures (message_hash lib e2)) \<in> set (request_validator_signatures lib e1) \<and>
         message_hash lib (e1\<lparr>transaction_hash := h, depositor := d, source_chain_id := s\<rparr>)
           = message_hash lib e1"
  using assms by (simp add: message_hash_def message_to_sign_def request_validator_signatures_def)

theorem dispatch_identifier_determined_by_tuple_witness:
  "recipient sample_event = recipient (sample_event\<lparr>transaction_hash := ''0x2c'', source_chain_id := 56\<rparr>) \<and>
   token_address sample_event = token_address (sample_event\<lparr>transaction_hash := ''0x2c'', source_chain_id := 56\<rparr>) \<and>
   amount sample_event = amount (sample_event\<lparr>transaction_hash := ''0x2c'', source_chain_id := 56\<rparr>) \<and>
   nonce sample_event = nonce (sample_event\<lparr>transaction_hash := ''0x2c'', source_chain_id := 56\<rparr>) \<and>
   destination_chain_id sample_event
     = destination_chain_id (sample_event\<lparr>transaction_hash := ''0x2c'', source_chain_id := 56\<rparr>) \<and>
   message_hash sample_library sample_event
     = message_hash sample_library (sample_event\<lparr>transaction_hash := ''0x2c'', source_chain_id := 56\<rparr>)"
  using dispatch_identifier_determined_by_tuple
          [of sample_event "sample_event\<lparr>transaction_hash := ''0x2c'', source_chain_id := 56\<rparr>" sample_library]
  by simp

section \<open>Reporting failures\<close>

text \<open>
  What \<^verbatim>\<open>_report_to_monitoring_service\<close> handles: a missing session, any status
  code, and an \<^verbatim>\<open>aiohttp.ClientError\<close>. Any other exception of the request leaves
  the method.
\<close>

lemma report_failures_handled:
  "session_unavailable nw \<Longrightarrow> snd (report_to_monitoring_service nw event v) = Inr ()"
  "post_result nw = PostStatus code \<Longrightarrow> snd (report_to_monitoring_service nw event v) = Inr ()"
  "post_result nw = PostRaises x \<Longrightarrow> is_ClientError x \<Longrightarrow>
     snd (report_to_monitoring_service nw event v) = Inr ()"
  by (simp_all add: report_to_monitoring_service_def)

lemma report_other_exception_escapes:
  "\<not> session_unavailable nw \<Longrightarrow> post_result nw = PostRaises x \<Longrightarrow> \<not> is_ClientError x \<Longrightarrow>
     snd (report_to_monitoring_service nw event v) = Inl x"
  by (simp add: report_to_monitoring_service_def)

text \<open>
  C2 fails on the code. When the post to the monitoring service raises
  \<^verbatim>\<open>asyncio.TimeoutError\<close> the exception leaves
  \<^verbatim>\<open>_report_to_monitoring_service\<close> and \<^verbatim>\<open>process_event\<close>, and ends the
  loop of \<^verbatim>\<open>_listener_task\<close>: of the two events the listener of chain 1 emits, only
  the first is processed.
\<close>

theorem report_timeout_ends_lane:
  "snd (report_to_monitoring_service (sample_network\<lparr>post_result := PostRaises TimeoutError\<rparr>)
          sample_event (PyFloat (Finite 2000))) = Inl TimeoutError \<and>
   snd (process_event sample_library (sample_network\<lparr>post_result := PostRaises TimeoutError\<rparr>)
          sample_event) = Inl TimeoutError \<and>
   emitted (listen_for_deposits sample_library sample_connector
              [Poll (9 / 10) sample_draws, Poll (9 / 10) sample_draws])
     = [generate_mock_event sample_library sample_connector sample_draws 1,
        generate_mock_event sample_library sample_connector sample_draws 2] \<and>
   snd (listener_task sample_library [(1, sample_connector)]
          (\<lambda>i. sample_network\<lparr>post_result := PostRaises TimeoutError\<rparr>) 1
          [Poll (9 / 10) sample_draws, Poll (9 / 10) sample_draws]) = Inl TimeoutError \<and>
   processing_order (fst (listener_task sample_library [(1, sample_connector)]
          (\<lambda>i. sample_network\<lparr>post_result := PostRaises TimeoutError\<rparr>) 1
          [Poll (9 / 10) sample_draws, Poll (9 / 10) sample_draws])) = [1]"
  by (simp add: processor_defs sample_defs listener_task_def listen_for_deposits_def
      generate_mock_event_def sample_connector_def sample_draws_def processing_order_def)

section \<open>The listener and its lane\<close>

text \<open>
  The nonce of a generated event is the counter it was given; every event emitted from a
  counter value on has a larger nonce, and the nonces emitted increase.
\<close>

lemma nonce_generate_mock_event [simp]: "nonce (generate_mock_event lib self d n) = n"
  by (simp add: generate_mock_event_def)

lemma listen_from_nonces_above:
  "event \<in> set (emitted (listen_from lib self c polls)) \<Longrightarrow> c < nonce event"
proof (induction polls arbitrary: c)
  case Nil
  then show ?case by simp
next
  case (Cons p polls)
  show ?case
  proof (cases p)
    case (Poll u d)
    with Cons.prems Cons.IH [of "c + 1"] Cons.IH [of c] show ?thesis
      by (auto split: if_splits)
  next
    case (PollRaises incremented)
    with Cons.prems Cons.IH [of "c + 1"] Cons.IH [of c] show ?thesis
      by (auto split: if_splits)
  qed
qed

lemma listen_from_nonces_increase:
  "sorted_wrt (<) (map nonce (emitted (listen_from lib self c polls)))"
proof (induction polls arbitrary: c)
  case Nil
  then show ?case by simp
next
  case (Cons p polls)
  show ?case
  proof (cases p)
    case (Poll u d)
    then show ?thesis
      using Cons.IH [of "c + 1"] Cons.IH [of c] listen_from_nonces_above [of _ lib self "c + 1" polls]
      by auto
  next
    case (PollRaises incremented)
    then show ?thesis using Cons.IH [of "c + 1"] Cons.IH [of c] by simp
  qed
qed

lemma emitted_listen_for_deposits:
  "emitted (listen_for_deposits lib self polls) = emitted (listen_from lib self 0 polls)"
  by (simp add: listen_for_deposits_def)

text \<open>
  C6. Of any two events one listener emits, the later one has the strictly greater
  nonce.
\<close>

theorem listener_nonces_strictly_increase:
  assumes "i < j" and "j < length (emitted (listen_for_deposits lib self polls))"
  shows "nonce (emitted (listen_for_deposits lib self polls) ! i)
           < nonce (emitted (listen_for_deposits lib self polls) ! j)"
proof -
  let ?es = "emitted (listen_for_deposits lib self polls)"
  have "sorted_wrt (<) (map nonce ?es)"
    by (simp add: emitted_listen_for_deposits listen_from_nonces_increase)
  with assms have "map nonce ?es ! i < map nonce ?es ! j"
    by (simp add: sorted_wrt_iff_nth_less)
  with assms show ?thesis by simp
qed

theorem listener_nonces_strictly_increase_witness:
  "(0::nat) < 1 \<and>
   1 < length (emitted (listen_for_deposits sample_library sample_connector
                 [Poll (9 / 10) sample_draws, Poll (1 / 10) sample_draws, PollRaises False,
                  Poll (7 / 10) sample_draws])) \<and>
   map nonce (emitted (listen_for_deposits sample_library sample_connector
                 [Poll (9 / 10) sample_draws, Poll (1 / 10) sample_draws, PollRaises False,
                  Poll (7 / 10) sample_draws])) = [1, 2] \<and>
   nonce (emitted (listen_for_deposits sample_library sample_connector
                 [Poll (9 / 10) sample_draws, Poll (1 / 10) sample_draws, PollRaises False,
                  Poll (7 / 10) sample_draws]) ! 0)
     < nonce (emitted (listen_for_deposits sample_library sample_connector
                 [Poll (9 / 10) sample_draws, Poll (1 / 10) sample_draws, PollRaises False,
                  Poll (7 / 10) sample_draws]) ! 1)"
  using listener_nonces_strictly_increase [of 0 1 sample_library sample_connector
          "[Poll (9 / 10) sample_draws, Poll (1 / 10) sample_draws, PollRaises False,
            Poll (7 / 10) sample_draws]"]
  by (simp add: listen_for_deposits_def)

section \<open>Generated events\<close>

text \<open>
  The fields of a generated event, under what the random module and the library
  guarantee; the stand-in library keeps the library's guarantee.
\<close>

lemma mock_event_fields:
  "source_chain_id (generate_mock_event lib self d n) \<noteq> destination_chain_id (generate_mock_event lib self d n)"
  "draws_in_range d \<Longrightarrow> 0 < amount (generate_mock_event lib self d n)"
  "checksum_is_address lib \<Longrightarrow> draws_in_range d \<Longrightarrow>
     is_address lib (depositor (generate_mock_event lib self d n))"
  "checksum_is_address lib \<Longrightarrow> draws_in_range d \<Longrightarrow>
     is_address lib (recipient (generate_mock_event lib self d n))"
  by (auto simp: generate_mock_event_def draws_in_range_def checksum_is_address_def)

lemma mock_event_valid:
  "checksum_is_address lib \<Longrightarrow> draws_in_range d \<Longrightarrow>
     is_valid_event lib (generate_mock_event lib self d n)"
  by (simp add: is_valid_event_iff mock_event_fields)

lemma listen_from_valid:
  "checksum_is_address lib \<Longrightarrow> list_all poll_in_range polls \<Longrightarrow>
     list_all (is_valid_event lib) (emitted (listen_from lib self c polls))"
proof (induction polls arbitrary: c)
  case Nil
  then show ?case by simp
next
  case (Cons p polls)
  then show ?case by (cases p) (simp_all add: mock_event_valid)
qed

lemma sample_library_checksum: "checksum_is_address sample_library"
  by (auto simp: checksum_is_address_def sample_library_def sample_is_address_def hex_digits_def)

text \<open>
  C10. Given that the checksum form of a drawn address is an address for the library,
  every event \<^verbatim>\<open>_generate_mock_event\<close> builds from draws in range has a strictly
  positive amount, a depositor and a recipient that are addresses, and a source chain
  other than its destination chain, and passes \<^verbatim>\<open>_is_valid_event\<close>; so does every
  event a listener emits.
\<close>

theorem mock_events_pass_validation:
  assumes "checksum_is_address lib"
  shows "(draws_in_range d \<longrightarrow>
           0 < amount (generate_mock_event lib self d n) \<and>
           is_address lib (depositor (generate_mock_event lib self d n)) \<and>
           is_address lib (recipient (generate_mock_event lib self d n)) \<and>
           source_chain_id (generate_mock_event lib self d n)
             \<noteq> destination_chain_id (generate_mock_event lib self d n) \<and>
           is_valid_event lib (generate_mock_event lib self d n)) \<and>
         (list_all poll_in_range polls \<longrightarrow>
           list_all (is_valid_event lib) (emitted (listen_for_deposits lib self polls)))"
  using assms
  by (simp add: mock_event_fields mock_event_valid listen_from_valid emitted_listen_for_deposits)

theorem mock_events_pass_validation_witness:
  "checksum_is_address sample_library \<and> draws_in_range sample_draws \<and>
   list_all poll_in_range [Poll (9 / 10) sample_draws, Poll (1 / 10) sample_draws] \<and>
   generate_mock_event sample_library sample_connector sample_draws 1
     = sample_event\<lparr>amount := 100000000\<rparr> \<and>
   is_valid_event sample_library (generate_mock_event sample_library sample_connector sample_draws 1) \<and>
   list_all (is_valid_event sample_library)
     (emitted (listen_for_deposits sample_library sample_connector
        [Poll (9 / 10) sample_draws, Poll (1 / 10) sample_draws]))"
proof -
  have d: "draws_in_range sample_draws"
    by (simp add: draws_in_range_def sample_draws_def hex_digits_def)
  have p: "list_all poll_in_range [Poll (9 / 10) sample_draws, Poll (1 / 10) sample_draws]"
    using d by simp
  have e: "generate_mock_event sample_library sample_connector sample_draws 1
             = sample_event\<lparr>amount := 100000000\<rparr>"
    by (simp add: generate_mock_event_def sample_library_def sample_connector_def sample_draws_def
        sample_event_def hex_nat.simps)
  note th = mock_events_pass_validation [OF sample_library_checksum, of sample_draws sample_connector 1
        "[Poll (9 / 10) sample_draws, Poll (1 / 10) sample_draws]"]
  from th d have v: "is_valid_event sample_library (generate_mock_event sample_library sample_connector sample_draws 1)"
    by blast
  from th p have l: "list_all (is_valid_event sample_library)
     (emitted (listen_for_deposits sample_library sample_connector
        [Poll (9 / 10) sample_draws, Poll (1 / 10) sample_draws]))"
    by blast
  from sample_library_checksum d p e v l show ?thesis by blast
qed

section \<open>Startup\<close>

text \<open>
  The two dictionaries of \<^verbatim>\<open>Config\<close> have the same keys, 1 and 137, so the second
  subscript never raises; the loop keeps its invariant in both branches.
\<close>

lemma configured_chains:
  "map_of RPC_ENDPOINTS c = None \<longleftrightarrow> c \<noteq> 1 \<and> c \<noteq> 137"
  "map_of BRIDGE_CONTRACT_ADDRESSES c = None \<longleftrightarrow> c \<noteq> 1 \<and> c \<noteq> 137"
  by (simp_all add: RPC_ENDPOINTS_def BRIDGE_CONTRACT_ADDRESSES_def)

lemma configured_chain_lookup:
  "c = 1 \<or> c = 137 \<Longrightarrow>
     \<exists>url address. map_of RPC_ENDPOINTS c = Some url \<and> map_of BRIDGE_CONTRACT_ADDRESSES c = Some address"
  by (auto simp: RPC_ENDPOINTS_def BRIDGE_CONTRACT_ADDRESSES_def)

lemma completes_skip:
  assumes "a \<noteq> 1" and "a \<noteq> 137" and "completes chain_ids connectors t cs"
  shows "completes (a # chain_ids) connectors (Log ERROR (ConfigMissing a) # t) cs"
  using assms unfolding completes_def by auto

lemma completes_add:
  assumes "a = 1 \<or> a = 137" and "completes chain_ids (AList.update a v connectors) t cs"
  shows "completes (a # chain_ids) connectors (Log INFO (ConnectorInitialized a url) # t) cs"
proof -
  have m: "map_of (AList.update a v connectors) = (map_of connectors)(a \<mapsto> v)"
    by (rule update_conv')
  from assms(2) have
    a: "\<forall>c. c \<noteq> 1 \<and> c \<noteq> 137 \<longrightarrow> map_of cs c = ((map_of connectors)(a \<mapsto> v)) c" and
    b: "\<forall>c. (c = 1 \<or> c = 137) \<and> (c \<in> set chain_ids \<or> ((map_of connectors)(a \<mapsto> v)) c \<noteq> None)
            \<longrightarrow> map_of cs c \<noteq> None" and
    c: "\<forall>c\<in>set chain_ids. c \<noteq> 1 \<and> c \<noteq> 137 \<longrightarrow> Log ERROR (ConfigMissing c) \<in> set t"
    unfolding completes_def m by blast+
  have a': "\<forall>c. c \<noteq> 1 \<and> c \<noteq> 137 \<longrightarrow> map_of cs c = map_of connectors c"
    using a assms(1) by auto
  have b': "\<forall>c. (c = 1 \<or> c = 137) \<and> (c \<in> set (a # chain_ids) \<or> map_of connectors c \<noteq> None)
            \<longrightarrow> map_of cs c \<noteq> None"
  proof (intro allI impI)
    fix c assume h: "(c = 1 \<or> c = 137) \<and> (c \<in> set (a # chain_ids) \<or> map_of connectors c \<noteq> None)"
    then have "c \<in> set chain_ids \<or> ((map_of connectors)(a \<mapsto> v)) c \<noteq> None"
      by (cases "c = a") auto
    with h b show "map_of cs c \<noteq> None" by blast
  qed
  have c': "\<forall>c\<in>set (a # chain_ids). c \<noteq> 1 \<and> c \<noteq> 137 \<longrightarrow>
              Log ERROR (ConfigMissing c) \<in> set (Log INFO (ConnectorInitialized a url) # t)"
    using c assms(1) by auto
  from a' b' c' show ?thesis unfolding completes_def by blast
qed

lemma initialize_connectors_completes:
  "\<exists>t cs. initialize_connectors chain_ids connectors = (t, Inr cs) \<and> completes chain_ids connectors t cs"
proof (induction chain_ids arbitrary: connectors)
  case Nil
  show ?case by (simp add: completes_def)
next
  case (Cons a chain_ids)
  show ?case
  proof (cases "a = 1 \<or> a = 137")
    case False
    then have rpc: "map_of RPC_ENDPOINTS a = None" by (simp add: configured_chains)
    from Cons.IH [of connectors] obtain t cs where
      ih: "initialize_connectors chain_ids connectors = (t, Inr cs)" "completes chain_ids connectors t cs"
      by blast
    have "initialize_connectors (a # chain_ids) connectors = (Log ERROR (ConfigMissing a) # t, Inr cs)"
      using rpc ih(1) by simp
    moreover have "completes (a # chain_ids) connectors (Log ERROR (ConfigMissing a) # t) cs"
      using False ih(2) by (simp add: completes_skip)
    ultimately show ?thesis by blast
  next
    case True
    from configured_chain_lookup [OF True] obtain url address where
      rpc: "map_of RPC_ENDPOINTS a = Some url" and
      br: "map_of BRIDGE_CONTRACT_ADDRESSES a = Some address"
      by blast
    let ?v = "\<lparr>chain_id = a, rpc_url = url, contract_address = address\<rparr>"
    from Cons.IH [of "AList.update a ?v connectors"] obtain t cs where
      ih: "initialize_connectors chain_ids (AList.update a ?v connectors) = (t, Inr cs)"
        "completes chain_ids (AList.update a ?v connectors) t cs"
      by blast
    have "initialize_connectors (a # chain_ids) connectors
                = (Log INFO (ConnectorInitialized a url) # t, Inr cs)"
      using rpc br ih(1) by simp
    moreover have "completes (a # chain_ids) connectors (Log INFO (ConnectorInitialized a url) # t) cs"
      using True ih(2) by (rule completes_add)
    ultimately show ?thesis by blast
  qed
qed

text \<open>
  C8. For every list of chain ids, \<^verbatim>\<open>_initialize_connectors\<close> completes without
  raising; every chain id of the list that is missing from \<^verbatim>\<open>RPC_ENDPOINTS\<close> or
  from \<^verbatim>\<open>BRIDGE_CONTRACT_ADDRESSES\<close> gets no connector and one logged error, and
  every chain id of the list that is in both gets its connector.
\<close>

theorem unconfigured_chains_skipped:
  "\<exists>t connectors.
     initialize_connectors chain_ids [] = (t, Inr connectors) \<and>
     (\<forall>c\<in>set chain_ids.
        map_of RPC_ENDPOINTS c = None \<or> map_of BRIDGE_CONTRACT_ADDRESSES c = None \<longrightarrow>
          map_of connectors c = None \<and> Log ERROR (ConfigMissing c) \<in> set t) \<and>
     (\<forall>c\<in>set chain_ids.
        map_of RPC_ENDPOINTS c \<noteq> None \<and> map_of BRIDGE_CONTRACT_ADDRESSES c \<noteq> None \<longrightarrow>
          map_of connectors c \<noteq> None)"
proof -
  from initialize_connectors_completes [of chain_ids "[]"] obtain t cs where
    eq: "initialize_connectors chain_ids [] = (t, Inr cs)" and co: "completes chain_ids [] t cs"
    by blast
  from co have
    a: "\<forall>c. c \<noteq> 1 \<and> c \<noteq> 137 \<longrightarrow> map_of cs c = None" and
    b: "\<forall>c. (c = 1 \<or> c = 137) \<and> c \<in> set chain_ids \<longrightarrow> map_of cs c \<noteq> None" and
    c: "\<forall>c\<in>set chain_ids. c \<noteq> 1 \<and> c \<noteq> 137 \<longrightarrow> Log ERROR (ConfigMissing c) \<in> set t"
    unfolding completes_def by simp_all
  have "(\<forall>c\<in>set chain_ids.
        map_of RPC_ENDPOINTS c = None \<or> map_of BRIDGE_CONTRACT_ADDRESSES c = None \<longrightarrow>
          map_of cs c = None \<and> Log ERROR (ConfigMissing c) \<in> set t)"
    unfolding configured_chains using a c by blast
  moreover have "(\<forall>c\<in>set chain_ids.
        map_of RPC_ENDPOINTS c \<noteq> None \<and> map_of BRIDGE_CONTRACT_ADDRESSES c \<noteq> None \<longrightarrow>
          map_of cs c \<noteq> None)"
    unfolding configured_chains using b by blast
  ultimately show ?thesis using eq by blast
qed

theorem unconfigured_chains_skipped_witness:
  "(5::int) \<in> set [1, 5, 137, 1] \<and> map_of RPC_ENDPOINTS 5 = None \<and>
   initialize_connectors [1, 5, 137, 1] [] =
     ([Log INFO (ConnectorInitialized 1 ''https://mainnet.infura.io/v3/YOUR_INFURA_KEY''),
       Log ERROR (ConfigMissing 5),
       Log INFO (ConnectorInitialized 137 ''https://polygon-rpc.com/''),
       Log INFO (ConnectorInitialized 1 ''https://mainnet.infura.io/v3/YOUR_INFURA_KEY'')],
      Inr [(1, \<lparr>chain_id = 1, rpc_url = ''https://mainnet.infura.io/v3/YOUR_INFURA_KEY'',
                 contract_address = ''0xSourceBridgeContractAddress...''\<rparr>),
           (137, \<lparr>chain_id = 137, rpc_url = ''https://polygon-rpc.com/'',
                   contract_address = ''0xDestBridgeContractAddress...''\<rparr>)])"
  using unconfigured_chains_skipped [of "[1, 5, 137, 1]"]
  by (simp add: RPC_ENDPOINTS_def BRIDGE_CONTRACT_ADDRESSES_def)

section \<open>The lane\<close>





section \<open>Enrichment\<close>










section \<open>The reported value\<close>




end
